theory Spec2Isabelle
  imports Complex_Main
begin

section \<open>Tensors, dtypes and constructor arguments\<close>

text \<open>
  The module \<^verbatim>\<open>tensorflow_probability/python/distributions/sinh_arcsinh.py\<close> defines
  one class, \<^verbatim>\<open>SinhArcsinh\<close>, which configures a transformed distribution. Tensors
  are modelled by what the class reads of them: their dtype, their (fully defined)
  shape, whether they are a reference (a variable or deferred tensor) and their value
  at each index. The values are reals; the rounding of the floating-point arithmetic is
  a parameter of the maps that compute with them, and construction is modelled under
  eager execution.
\<close>

datatype dtype = float16 | bfloat16 | float32 | float64 | int32 | int64

fun is_floating :: "dtype \<Rightarrow> bool" where
  "is_floating int32 = False"
| "is_floating int64 = False"
| "is_floating _ = True"

datatype error = TypeError | ValueError | InvalidArgumentError

record tensor =
  t_dtype :: dtype
  t_shape :: "nat list"
  t_value :: "nat list \<Rightarrow> real"
  t_is_ref :: bool

text \<open>
  An argument of the constructor is a Python float (which carries no dtype) or a
  tensor-like object (a tensor, or a reference when \<open>t_is_ref\<close> holds).
\<close>

datatype arg = PyFloat real | TensorLike tensor

text \<open>
  Reading a tensor at an index of a batch it broadcasts to: the index is aligned on the
  right and an axis of size 1 is read at position 0.
\<close>

definition bread :: "tensor \<Rightarrow> nat list \<Rightarrow> real" where
  "bread t i =
     t_value t (map2 (\<lambda>d k. if d = 1 then 0 else k) (t_shape t)
                  (drop (length i - length (t_shape t)) i))"

subsection \<open>Library services used by the constructor\<close>

fun arg_dtype :: "arg option \<Rightarrow> dtype option" where
  "arg_dtype None = None"
| "arg_dtype (Some (PyFloat r)) = None"
| "arg_dtype (Some (TensorLike t)) = Some (t_dtype t)"

text \<open>
  Modelled from the spec: \<^verbatim>\<open>dtype_util.common_dtype\<close> (internal/dtype_util.py is not
  among the sources). It returns the one dtype carried by the arguments that carry a
  dtype, the hint when none does, and raises a TypeError when two of them differ
  (the constructor's docstring: "They must all have the same dtype").
\<close>

fun common_dtype_loop :: "dtype option \<Rightarrow> arg option list \<Rightarrow> error + dtype option" where
  "common_dtype_loop dt [] = Inr dt"
| "common_dtype_loop dt (a # as) =
     (case arg_dtype a of
        None \<Rightarrow> common_dtype_loop dt as
      | Some d \<Rightarrow>
          (case dt of
             None \<Rightarrow> common_dtype_loop (Some d) as
           | Some d0 \<Rightarrow> if d0 \<noteq> d then Inl TypeError else common_dtype_loop dt as))"

definition common_dtype :: "arg option list \<Rightarrow> dtype \<Rightarrow> error + dtype" where
  "common_dtype args_list dtype_hint =
     (case common_dtype_loop None args_list of
        Inl e \<Rightarrow> Inl e
      | Inr None \<Rightarrow> Inr dtype_hint
      | Inr (Some d) \<Rightarrow> Inr d)"

text \<open>
  Modelled from the spec: \<^verbatim>\<open>tensor_util.convert_nonref_to_tensor\<close>
  (internal/tensor_util.py is not among the sources). A reference is returned as it is,
  after a check of its dtype; anything else is converted to a tensor of the requested
  dtype, a Python float becoming a scalar.
\<close>

fun convert_nonref_to_tensor :: "arg \<Rightarrow> dtype \<Rightarrow> error + tensor" where
  "convert_nonref_to_tensor (TensorLike t) dt =
     (if t_is_ref t then (if dt \<noteq> t_dtype t then Inl TypeError else Inr t)
      else (if dt \<noteq> t_dtype t then Inl ValueError else Inr t))"
| "convert_nonref_to_tensor (PyFloat r) dt =
     (if is_floating dt
      then Inr \<lparr>t_dtype = dt, t_shape = [], t_value = (\<lambda>i. r), t_is_ref = False\<rparr>
      else Inl TypeError)"

definition prefer_static_rank :: "tensor \<Rightarrow> nat" where
  "prefer_static_rank x = length (t_shape x)"

definition reduce_max :: "nat list \<Rightarrow> nat" where
  "reduce_max xs = foldr max xs 0"

text \<open>\<^verbatim>\<open>tf.ones(n, tf.int32)\<close>, read as a shape: a vector of \<open>n\<close> ones.\<close>

definition tf_ones_vec :: "nat \<Rightarrow> nat list" where
  "tf_ones_vec n = replicate n 1"

definition tf_zeros :: "nat list \<Rightarrow> dtype \<Rightarrow> tensor" where
  "tf_zeros shp dt = \<lparr>t_dtype = dt, t_shape = shp, t_value = (\<lambda>i. 0), t_is_ref = False\<rparr>"

definition tf_ones :: "nat list \<Rightarrow> dtype \<Rightarrow> tensor" where
  "tf_ones shp dt = \<lparr>t_dtype = dt, t_shape = shp, t_value = (\<lambda>i. 1), t_is_ref = False\<rparr>"

text \<open>
  \<^verbatim>\<open>with tf.name_scope(name) as name\<close>, entered at the outermost scope: the name of
  the scope is the given name followed by a slash.
\<close>

definition tf_name_scope :: "string \<Rightarrow> string" where
  "tf_name_scope name =
     (if name = [] then [] else if last name = CHR ''/'' then name else name @ ''/'')"

text \<open>All the indices of a shape, and two conditions on the values of a tensor.\<close>

fun indices :: "nat list \<Rightarrow> nat list list" where
  "indices [] = [[]]"
| "indices (n # ns) = concat (map (\<lambda>k. map ((#) k) (indices ns)) [0..<n])"

definition all_positive :: "tensor \<Rightarrow> bool" where
  "all_positive t = list_all (\<lambda>i. 0 < t_value t i) (indices (t_shape t))"

definition none_zero :: "tensor \<Rightarrow> bool" where
  "none_zero t = list_all (\<lambda>i. t_value t i \<noteq> 0) (indices (t_shape t))"

section \<open>Bijectors and base distributions\<close>

text \<open>
  The bijectors the class builds, each with its \<^verbatim>\<open>validate_args\<close> flag (the last
  argument; \<open>False\<close> is the library's default when a call does not pass it).
\<close>

datatype bijector =
    Identity bool
  | Shift tensor bool
  | Scale tensor bool
  | SinhArcsinhB tensor tensor bool
  | Softplus real bool
  | Chain "bijector list" bool

subsection \<open>Validation and construction of bijectors\<close>

datatype assertion = AssertPositive tensor | AssertNoneEqualZero tensor

fun assertion_tensor :: "assertion \<Rightarrow> tensor" where
  "assertion_tensor (AssertPositive t) = t"
| "assertion_tensor (AssertNoneEqualZero t) = t"

fun assertion_holds :: "assertion \<Rightarrow> bool" where
  "assertion_holds (AssertPositive t) = all_positive t"
| "assertion_holds (AssertNoneEqualZero t) = none_zero t"

text \<open>
  Modelled from the spec: the assertions a bijector adds for its own parameters
  (\<^verbatim>\<open>_parameter_control_dependencies\<close> of the modules under bijectors/, which are not
  among the sources). With \<^verbatim>\<open>validate_args\<close> enabled the sinh-arcsinh bijector
  asserts that its tailweight is positive and the scale bijector asserts that its scale
  is not zero; without it, and for the other bijectors, nothing is asserted.
\<close>

fun parameter_control_dependencies :: "bijector \<Rightarrow> assertion list" where
  "parameter_control_dependencies (Identity v) = []"
| "parameter_control_dependencies (Shift t v) = []"
| "parameter_control_dependencies (Scale t v) = (if v then [AssertNoneEqualZero t] else [])"
| "parameter_control_dependencies (SinhArcsinhB s t v) = (if v then [AssertPositive t] else [])"
| "parameter_control_dependencies (Softplus low v) = []"
| "parameter_control_dependencies (Chain bs v) = []"


text \<open>
  Modelled from the spec: the constructor of the bijector base class
  (bijectors/bijector.py, not among the sources) under eager execution. An assertion on
  a tensor that is not a reference is evaluated when the bijector is built, and raises
  when it fails; an assertion on a reference is left to the calls that read it.
\<close>

definition bijector_init :: "bijector \<Rightarrow> error + bijector" where
  "bijector_init b =
     (if list_all (\<lambda>c. if t_is_ref (assertion_tensor c) then True else assertion_holds c)
           (parameter_control_dependencies b)
      then Inr b else Inl InvalidArgumentError)"

text \<open>
  Modelled from the spec: the constructor \<^verbatim>\<open>sinh_arcsinh_bijector.SinhArcsinh\<close>
  (bijectors/sinh_arcsinh.py, not among the sources). It takes the common dtype of
  tailweight and skewness, converts the constant \<open>2.\<close> of the docstring's \<open>F_0(2)\<close> to
  it, which raises on a dtype that is not floating-point, and calls the base
  constructor.
\<close>

definition sinh_arcsinh_bijector_SinhArcsinh :: "tensor \<Rightarrow> tensor \<Rightarrow> bool \<Rightarrow> error + bijector" where
  "sinh_arcsinh_bijector_SinhArcsinh skewness tailweight validate_args =
     (case common_dtype [Some (TensorLike tailweight), Some (TensorLike skewness)] float32 of
        Inl e \<Rightarrow> Inl e
      | Inr dtype \<Rightarrow>
     (case convert_nonref_to_tensor (PyFloat 2) dtype of
        Inl e \<Rightarrow> Inl e
      | Inr scale_number \<Rightarrow> bijector_init (SinhArcsinhB skewness tailweight validate_args)))"

text \<open>
  Modelled from the spec: the constructors of the shift, scale, chain, identity and
  softplus bijectors (bijectors/*.py, not among the sources), which store their
  arguments and call the base constructor.
\<close>

definition shift_bijector_Shift :: "tensor \<Rightarrow> bool \<Rightarrow> error + bijector" where
  "shift_bijector_Shift shift validate_args = bijector_init (Shift shift validate_args)"

definition scale_bijector_Scale :: "tensor \<Rightarrow> bool \<Rightarrow> error + bijector" where
  "scale_bijector_Scale scale validate_args = bijector_init (Scale scale validate_args)"

definition chain_bijector_Chain :: "bijector list \<Rightarrow> bool \<Rightarrow> error + bijector" where
  "chain_bijector_Chain bijectors validate_args = bijector_init (Chain bijectors validate_args)"

definition identity_bijector_Identity :: "bool \<Rightarrow> error + bijector" where
  "identity_bijector_Identity validate_args = bijector_init (Identity validate_args)"

definition softplus_bijector_Softplus :: "real \<Rightarrow> bool \<Rightarrow> error + bijector" where
  "softplus_bijector_Softplus low validate_args = bijector_init (Softplus low validate_args)"

text \<open>
  Modelled from the spec: calling a bijector on a bijector (\<^verbatim>\<open>Bijector.__call__\<close>,
  bijectors/bijector.py, not among the sources) chains the two, the argument first.
\<close>

definition bijector_call :: "bijector \<Rightarrow> bijector \<Rightarrow> bijector" where
  "bijector_call b val = Chain [b, val] False"

subsection \<open>The maps the bijectors compute\<close>

text \<open>
  Modelled from the spec: the forward maps of the bijector modules (bijectors/*.py are
  not among the sources), at one batch index. The code computes in the dtype of its
  tensors: \<open>rnd\<close> is the rounding of that arithmetic, applied to the result of every
  operation, and each property proved below says for which roundings it holds (the
  exact arithmetic of the reals is the rounding that changes nothing). The sinh-arcsinh map
  is the one of the class docstring,
  \<^verbatim>\<open>F(Z) := Sinh((Arcsinh(Z) + skewness) * tailweight) * (2 / F_0(2))\<close> with
  \<^verbatim>\<open>F_0(Z) := Sinh(Arcsinh(Z) * tailweight)\<close>; a chain applies its last member first.
\<close>

fun forward :: "(real \<Rightarrow> real) \<Rightarrow> bijector \<Rightarrow> nat list \<Rightarrow> real \<Rightarrow> real" where
  "forward rnd (Identity v) i x = x"
| "forward rnd (Shift shift v) i x = rnd (x + bread shift i)"
| "forward rnd (Scale scale v) i x = rnd (x * bread scale i)"
| "forward rnd (SinhArcsinhB skewness tailweight v) i x =
     rnd (rnd (sinh (rnd (rnd (rnd (arsinh x) + bread skewness i) * bread tailweight i)))
            * rnd (2 / rnd (sinh (rnd (rnd (arsinh 2) * bread tailweight i)))))"
| "forward rnd (Softplus low v) i x = rnd (rnd (ln (1 + exp x)) + low)"
| "forward rnd (Chain bs v) i x = foldr (\<lambda>b y. forward rnd b i y) bs x"

text \<open>The members of a bijector in the order in which its forward map applies them.\<close>

fun application_order :: "bijector \<Rightarrow> bijector list" where
  "application_order (Chain bs v) = concat (map application_order (rev bs))"
| "application_order b = [b]"

subsection \<open>Base distributions\<close>

text \<open>
  A base distribution is the library's \<^verbatim>\<open>Normal(loc, scale, allow_nan_stats,
  validate_args)\<close> or any distribution the caller supplies.
\<close>

datatype 'd distribution = Normal tensor tensor bool bool | Supplied 'd

text \<open>
  Modelled from the spec: the constructor \<^verbatim>\<open>normal.Normal\<close> (distributions/normal.py,
  not among the sources) under eager execution: with \<^verbatim>\<open>validate_args\<close> enabled it
  asserts that a scale that is not a reference is positive.
\<close>

definition normal_Normal :: "tensor \<Rightarrow> tensor \<Rightarrow> bool \<Rightarrow> bool \<Rightarrow> error + 'd distribution" where
  "normal_Normal loc scale allow_nan_stats validate_args =
     (if validate_args \<and> \<not> t_is_ref scale \<and> \<not> all_positive scale
      then Inl InvalidArgumentError
      else Inr (Normal loc scale allow_nan_stats validate_args))"

section \<open>The class SinhArcsinh\<close>

text \<open>The arguments of \<^verbatim>\<open>__init__\<close>, which \<^verbatim>\<open>dict(locals())\<close> records.\<close>

record 'd init_args =
  arg_loc :: arg
  arg_scale :: arg
  arg_skewness :: "arg option"
  arg_tailweight :: "arg option"
  arg_distribution :: "'d distribution option"
  arg_validate_args :: bool
  arg_allow_nan_stats :: bool
  arg_name :: string

text \<open>
  The fields of an instance: \<^verbatim>\<open>self._loc\<close>, \<^verbatim>\<open>self._scale\<close>,
  \<^verbatim>\<open>self._tailweight\<close>, \<^verbatim>\<open>self._skewness\<close>, what the superclass constructor
  receives, and \<^verbatim>\<open>self._parameters\<close>.
\<close>

record 'd SinhArcsinh =
  self_loc :: tensor
  self_scale :: tensor
  self_tailweight :: tensor
  self_skewness :: tensor
  self_distribution :: "'d distribution"
  self_bijector :: bijector
  self_validate_args :: bool
  self_name :: string
  self_parameters :: "'d init_args"

text \<open>
  The default base distribution of \<^verbatim>\<open>__init__\<close> (lines 165 to 177), built from the
  four converted parameters.
\<close>

definition default_distribution ::
  "tensor \<Rightarrow> tensor \<Rightarrow> tensor \<Rightarrow> tensor \<Rightarrow> dtype \<Rightarrow> bool \<Rightarrow> bool
     \<Rightarrow> error + 'd distribution" where
  "default_distribution skewness tailweight loc scale dtype allow_nan_stats validate_args =
     (let batch_rank = reduce_max (map prefer_static_rank [skewness, tailweight, loc, scale])
      in normal_Normal (tf_zeros (tf_ones_vec batch_rank) dtype) (tf_ones [] dtype)
           allow_nan_stats validate_args)"

text \<open>
  \<^verbatim>\<open>SinhArcsinh.__init__\<close>, under eager execution. Every call is a branch that
  passes on what the callee raises, in the order of the source; the constructor of the
  superclass stores what it is given and is taken not to raise.
\<close>

definition SinhArcsinh_init :: "'d init_args \<Rightarrow> error + 'd SinhArcsinh" where
  "SinhArcsinh_init a =
     (let parameters = a;
          name = tf_name_scope (arg_name a) in
      case common_dtype [Some (arg_loc a), Some (arg_scale a), arg_skewness a, arg_tailweight a]
             float32 of
        Inl e \<Rightarrow> Inl e
      | Inr dtype \<Rightarrow>
     (case convert_nonref_to_tensor (arg_loc a) dtype of
        Inl e \<Rightarrow> Inl e
      | Inr loc \<Rightarrow>
     (case convert_nonref_to_tensor (arg_scale a) dtype of
        Inl e \<Rightarrow> Inl e
      | Inr scale \<Rightarrow>
     (let tailweight = (case arg_tailweight a of None \<Rightarrow> PyFloat 1 | Some t \<Rightarrow> t);
          has_default_skewness = (arg_skewness a = None);
          skewness = (case arg_skewness a of None \<Rightarrow> PyFloat 0 | Some s \<Rightarrow> s)
      in
      case convert_nonref_to_tensor tailweight dtype of
        Inl e \<Rightarrow> Inl e
      | Inr tailweight' \<Rightarrow>
     (case convert_nonref_to_tensor skewness dtype of
        Inl e \<Rightarrow> Inl e
      | Inr skewness' \<Rightarrow>
     (case (case arg_distribution a of
              None \<Rightarrow> default_distribution skewness' tailweight' loc scale dtype
                        (arg_allow_nan_stats a) (arg_validate_args a)
            | Some d \<Rightarrow> Inr d) of
        Inl e \<Rightarrow> Inl e
      | Inr distribution \<Rightarrow>
     (case sinh_arcsinh_bijector_SinhArcsinh skewness' tailweight' (arg_validate_args a) of
        Inl e \<Rightarrow> Inl e
      | Inr f \<Rightarrow>
     (case shift_bijector_Shift loc False of
        Inl e \<Rightarrow> Inl e
      | Inr shift \<Rightarrow>
     (case scale_bijector_Scale scale False of
        Inl e \<Rightarrow> Inl e
      | Inr scale_b \<Rightarrow>
     (let affine = bijector_call shift scale_b in
      case chain_bijector_Chain [affine, f] False of
        Inl e \<Rightarrow> Inl e
      | Inr bijector \<Rightarrow>
          Inr \<lparr>self_loc = loc, self_scale = scale, self_tailweight = tailweight',
               self_skewness = skewness', self_distribution = distribution,
               self_bijector = bijector, self_validate_args = arg_validate_args a,
               self_name = name, self_parameters = parameters\<rparr>))))))))))"

subsection \<open>Accessors and the distribution interface\<close>

text \<open>
  A method takes the instance and returns its result together with the instance as the
  method leaves it, so that a method that assigned a field would show.
\<close>

definition loc :: "'d SinhArcsinh \<Rightarrow> tensor \<times> 'd SinhArcsinh" where
  "loc self = (self_loc self, self)"

definition scale :: "'d SinhArcsinh \<Rightarrow> tensor \<times> 'd SinhArcsinh" where
  "scale self = (self_scale self, self)"

definition tailweight :: "'d SinhArcsinh \<Rightarrow> tensor \<times> 'd SinhArcsinh" where
  "tailweight self = (self_tailweight self, self)"

definition skewness :: "'d SinhArcsinh \<Rightarrow> tensor \<times> 'd SinhArcsinh" where
  "skewness self = (self_skewness self, self)"

definition default_event_space_bijector :: "'d SinhArcsinh \<Rightarrow> bijector \<times> 'd SinhArcsinh" where
  "default_event_space_bijector self = (Identity (self_validate_args self), self)"

subsection \<open>Batch shape\<close>

text \<open>
  \<^verbatim>\<open>tf.broadcast_static_shape\<close>, a service of the tensor framework, on fully
  defined shapes: the two shapes are aligned on the right, a missing axis counts as 1,
  and two sizes combine when they are equal or one of them is 1. The helper works on the
  reversed shapes; \<open>None\<close> is the framework's ValueError.
\<close>

fun broadcast_shape_helper :: "nat list \<Rightarrow> nat list \<Rightarrow> nat list option" where
  "broadcast_shape_helper [] ys = Some ys"
| "broadcast_shape_helper xs [] = Some xs"
| "broadcast_shape_helper (x # xs) (y # ys) =
     (if x = 1 then map_option ((#) y) (broadcast_shape_helper xs ys)
      else if y = 1 then map_option ((#) x) (broadcast_shape_helper xs ys)
      else if x = y then map_option ((#) x) (broadcast_shape_helper xs ys)
      else None)"

definition broadcast_static_shape :: "nat list \<Rightarrow> nat list \<Rightarrow> error + nat list" where
  "broadcast_static_shape shape_x shape_y =
     (case broadcast_shape_helper (rev shape_x) (rev shape_y) of
        None \<Rightarrow> Inl ValueError
      | Some r \<Rightarrow> Inr (rev r))"

text \<open>The loop of \<^verbatim>\<open>_batch_shape\<close> over \<^verbatim>\<open>params[1:]\<close>.\<close>

fun broadcast_loop :: "error + nat list \<Rightarrow> tensor list \<Rightarrow> error + nat list" where
  "broadcast_loop s_shape [] = s_shape"
| "broadcast_loop (Inl e) (t # ts) = Inl e"
| "broadcast_loop (Inr s) (t # ts) = broadcast_loop (broadcast_static_shape s (t_shape t)) ts"

definition batch_shape :: "'d SinhArcsinh \<Rightarrow> (error + nat list) \<times> 'd SinhArcsinh" where
  "batch_shape self =
     (let params = [fst (skewness self), fst (tailweight self), fst (loc self), fst (scale self)]
      in (broadcast_loop (Inr (t_shape (hd params))) (tl params), self))"

text \<open>
  Modelled from the spec: \<^verbatim>\<open>distribution_util.get_broadcast_shape\<close>
  (internal/distribution_util.py is not among the sources), the broadcast of the shapes
  of its arguments. On fully defined shapes the dynamic shape is the list of sizes.
\<close>

fun get_broadcast_shape :: "tensor list \<Rightarrow> error + nat list" where
  "get_broadcast_shape [] = Inl ValueError"
| "get_broadcast_shape (t # ts) = broadcast_loop (Inr (t_shape t)) ts"

definition batch_shape_tensor :: "'d SinhArcsinh \<Rightarrow> (error + nat list) \<times> 'd SinhArcsinh" where
  "batch_shape_tensor self =
     (get_broadcast_shape
        [fst (skewness self), fst (tailweight self), fst (loc self), fst (scale self)], self)"

text \<open>
  The broadcast of several shapes, stated directly (the rule of the array libraries):
  the result has the largest rank; on each axis, counted from the right with a missing
  axis counting as 1, the sizes other than 1 must all be the same size, which is the
  size of the result, or 1 when there is none.
\<close>

definition size_at :: "nat list \<Rightarrow> nat \<Rightarrow> nat" where
  "size_at shp k = (if k < length shp then rev shp ! k else 1)"

text \<open>The same on a reversed shape, as the helper above reads it.\<close>

definition nth1 :: "nat list \<Rightarrow> nat \<Rightarrow> nat" where
  "nth1 l k = (if k < length l then l ! k else 1)"

definition broadcast_axis :: "nat list \<Rightarrow> nat option" where
  "broadcast_axis ds =
     (case remdups (filter (\<lambda>d. d \<noteq> 1) ds) of
        [] \<Rightarrow> Some 1
      | [d] \<Rightarrow> Some d
      | _ \<Rightarrow> None)"

definition broadcast_of_shapes :: "nat list list \<Rightarrow> error + nat list" where
  "broadcast_of_shapes shapes =
     (let n = reduce_max (map length shapes);
          axes = map (\<lambda>k. broadcast_axis (map (\<lambda>s. size_at s k) shapes)) (rev [0..<n])
      in if list_all (\<lambda>r. r \<noteq> None) axes then Inr (map the axes) else Inl ValueError)"

subsection \<open>Parameter properties\<close>






section \<open>Example inputs\<close>

definition vec3 :: "dtype \<Rightarrow> tensor" where
  "vec3 dt = \<lparr>t_dtype = dt, t_shape = [3], t_value = (\<lambda>i. 2), t_is_ref = False\<rparr>"

definition scalar :: "dtype \<Rightarrow> real \<Rightarrow> tensor" where
  "scalar dt r = \<lparr>t_dtype = dt, t_shape = [], t_value = (\<lambda>i. r), t_is_ref = False\<rparr>"

text \<open>\<^verbatim>\<open>SinhArcsinh(loc=3., scale=2.)\<close>\<close>

definition args_scalar :: "unit init_args" where
  "args_scalar = \<lparr>arg_loc = PyFloat 3, arg_scale = PyFloat 2, arg_skewness = None,
     arg_tailweight = None, arg_distribution = None, arg_validate_args = False,
     arg_allow_nan_stats = True, arg_name = ''SinhArcsinh''\<rparr>"

text \<open>\<^verbatim>\<open>SinhArcsinh(loc=tf.constant([2., 2., 2.]), scale=2.)\<close>\<close>

definition args_vec :: "unit init_args" where
  "args_vec = \<lparr>arg_loc = TensorLike (vec3 float32), arg_scale = PyFloat 2, arg_skewness = None,
     arg_tailweight = None, arg_distribution = None, arg_validate_args = False,
     arg_allow_nan_stats = True, arg_name = ''SinhArcsinh''\<rparr>"

text \<open>
  \<^verbatim>\<open>SinhArcsinh(loc=7., scale=5., skewness=0.5, tailweight=2., distribution=d,
  validate_args=True)\<close>
\<close>

definition args_general :: "unit init_args" where
  "args_general = \<lparr>arg_loc = PyFloat 7, arg_scale = PyFloat 5,
     arg_skewness = Some (PyFloat (1 / 2)), arg_tailweight = Some (PyFloat 2),
     arg_distribution = Some (Supplied ()), arg_validate_args = True,
     arg_allow_nan_stats = True, arg_name = ''SinhArcsinh''\<rparr>"



section \<open>Properties of the constructor\<close>

lemma shift_bijector_Shift_Inr [simp]: "shift_bijector_Shift t v = Inr (Shift t v)"
  by (simp add: shift_bijector_Shift_def bijector_init_def)

lemma scale_bijector_Scale_False [simp]: "scale_bijector_Scale t False = Inr (Scale t False)"
  by (simp add: scale_bijector_Scale_def bijector_init_def)

lemma chain_bijector_Chain_Inr [simp]: "chain_bijector_Chain bs v = Inr (Chain bs v)"
  by (simp add: chain_bijector_Chain_def bijector_init_def)

lemma identity_bijector_Identity_Inr [simp]: "identity_bijector_Identity v = Inr (Identity v)"
  by (simp add: identity_bijector_Identity_def bijector_init_def)

lemma softplus_bijector_Softplus_Inr [simp]:
  "softplus_bijector_Softplus low v = Inr (Softplus low v)"
  by (simp add: softplus_bijector_Softplus_def bijector_init_def)

lemma all_positive_scalar_shape:
  "t_shape t = [] \<Longrightarrow> all_positive t = (0 < t_value t [])"
  by (simp add: all_positive_def)

lemma default_distribution_Inr [simp]:
  "default_distribution sk tw l s dt an v =
     Inr (Normal (tf_zeros (replicate (reduce_max [length (t_shape sk), length (t_shape tw),
                                                    length (t_shape l), length (t_shape s)]) 1) dt)
                 (tf_ones [] dt) an v)"
  by (simp add: default_distribution_def normal_Normal_def all_positive_def tf_ones_def
        prefer_static_rank_def tf_ones_vec_def)

lemma sinh_arcsinh_bijector_eval:
  assumes "t_dtype sk = dt" and "t_dtype tw = dt"
  shows "sinh_arcsinh_bijector_SinhArcsinh sk tw v =
           (if \<not> is_floating dt then Inl TypeError
            else if v \<and> \<not> t_is_ref tw \<and> \<not> all_positive tw then Inl InvalidArgumentError
            else Inr (SinhArcsinhB sk tw v))"
  using assms
  by (auto simp: sinh_arcsinh_bijector_SinhArcsinh_def common_dtype_def bijector_init_def)

lemma convert_dtype: "convert_nonref_to_tensor x dt = Inr t \<Longrightarrow> t_dtype t = dt"
  by (cases x) (auto split: if_splits)

lemma init_fields:
  assumes "SinhArcsinh_init a = Inr d"
  obtains dtype where
    "common_dtype [Some (arg_loc a), Some (arg_scale a), arg_skewness a, arg_tailweight a] float32
       = Inr dtype"
    "convert_nonref_to_tensor (arg_loc a) dtype = Inr (self_loc d)"
    "convert_nonref_to_tensor (arg_scale a) dtype = Inr (self_scale d)"
    "convert_nonref_to_tensor (case arg_tailweight a of None \<Rightarrow> PyFloat 1 | Some t \<Rightarrow> t) dtype
       = Inr (self_tailweight d)"
    "convert_nonref_to_tensor (case arg_skewness a of None \<Rightarrow> PyFloat 0 | Some s \<Rightarrow> s) dtype
       = Inr (self_skewness d)"
    "(case arg_distribution a of
          None \<Rightarrow> default_distribution (self_skewness d) (self_tailweight d) (self_loc d)
                    (self_scale d) dtype (arg_allow_nan_stats a) (arg_validate_args a)
        | Some b \<Rightarrow> Inr b) = Inr (self_distribution d)"
    "sinh_arcsinh_bijector_SinhArcsinh (self_skewness d) (self_tailweight d) (arg_validate_args a)
       = Inr (SinhArcsinhB (self_skewness d) (self_tailweight d) (arg_validate_args a))"
    "is_floating dtype"
    "arg_validate_args a \<Longrightarrow> \<not> t_is_ref (self_tailweight d) \<Longrightarrow> all_positive (self_tailweight d)"
    "self_bijector d =
       Chain [bijector_call (Shift (self_loc d) False) (Scale (self_scale d) False),
              SinhArcsinhB (self_skewness d) (self_tailweight d) (arg_validate_args a)] False"
    "self_validate_args d = arg_validate_args a"
    "self_name d = tf_name_scope (arg_name a)"
    "self_parameters d = a"
proof -
  from assms obtain dtype l s t k b f where
    c: "common_dtype [Some (arg_loc a), Some (arg_scale a), arg_skewness a, arg_tailweight a] float32
       = Inr dtype" and
    l: "convert_nonref_to_tensor (arg_loc a) dtype = Inr l" and
    s: "convert_nonref_to_tensor (arg_scale a) dtype = Inr s" and
    t: "convert_nonref_to_tensor (case arg_tailweight a of None \<Rightarrow> PyFloat 1 | Some t \<Rightarrow> t) dtype
       = Inr t" and
    k: "convert_nonref_to_tensor (case arg_skewness a of None \<Rightarrow> PyFloat 0 | Some s \<Rightarrow> s) dtype
       = Inr k" and
    b: "(case arg_distribution a of
          None \<Rightarrow> default_distribution k t l s dtype (arg_allow_nan_stats a) (arg_validate_args a)
        | Some b \<Rightarrow> Inr b) = Inr b" and
    f: "sinh_arcsinh_bijector_SinhArcsinh k t (arg_validate_args a) = Inr f" and
    d: "d = \<lparr>self_loc = l, self_scale = s, self_tailweight = t, self_skewness = k,
             self_distribution = b,
             self_bijector = Chain [bijector_call (Shift l False) (Scale s False), f] False,
             self_validate_args = arg_validate_args a,
             self_name = tf_name_scope (arg_name a), self_parameters = a\<rparr>"
    unfolding SinhArcsinh_init_def Let_def
    by (auto split: sum.splits)
  have dk: "t_dtype k = dtype" using k by (rule convert_dtype)
  have dt: "t_dtype t = dtype" using t by (rule convert_dtype)
  note e = sinh_arcsinh_bijector_eval[OF dk dt, of "arg_validate_args a"]
  from f e have fl: "is_floating dtype" by (auto split: if_splits)
  from f e have pos: "arg_validate_args a \<Longrightarrow> \<not> t_is_ref t \<Longrightarrow> all_positive t"
    by (auto split: if_splits)
  from f e have ff: "f = SinhArcsinhB k t (arg_validate_args a)" by (auto split: if_splits)
  show ?thesis
    by (rule that[of dtype]) (use c l s t k b f fl pos ff in \<open>simp_all add: d cong: option.case_cong\<close>)
qed


lemma all_positive_scalar [simp]: "all_positive (scalar dt r) = (0 < r)"
  by (simp add: all_positive_def scalar_def)

lemma none_zero_scalar [simp]: "none_zero (scalar dt r) = (r \<noteq> 0)"
  by (simp add: none_zero_def scalar_def)

lemma bread_scalar [simp]: "bread (scalar dt r) i = r"
  by (simp add: bread_def scalar_def)

lemma scalar_sel [simp]:
  "t_dtype (scalar dt r) = dt" "t_shape (scalar dt r) = []" "t_is_ref (scalar dt r) = False"
  by (simp_all add: scalar_def)

lemma convert_PyFloat:
  "convert_nonref_to_tensor (PyFloat r) dt = (if is_floating dt then Inr (scalar dt r) else Inl TypeError)"
  by (simp add: scalar_def)

lemma init_floats:
  "SinhArcsinh_init
     \<lparr>arg_loc = PyFloat l, arg_scale = PyFloat s, arg_skewness = Some (PyFloat k),
      arg_tailweight = Some (PyFloat w), arg_distribution = b, arg_validate_args = v,
      arg_allow_nan_stats = n, arg_name = nm\<rparr> =
   (if v \<and> \<not> 0 < w then Inl InvalidArgumentError
    else Inr \<lparr>self_loc = scalar float32 l, self_scale = scalar float32 s,
              self_tailweight = scalar float32 w, self_skewness = scalar float32 k,
              self_distribution =
                (case b of None \<Rightarrow> Normal (tf_zeros [] float32) (tf_ones [] float32) n v
                 | Some x \<Rightarrow> x),
              self_bijector =
                Chain [Chain [Shift (scalar float32 l) False, Scale (scalar float32 s) False] False,
                       SinhArcsinhB (scalar float32 k) (scalar float32 w) v] False,
              self_validate_args = v, self_name = tf_name_scope nm,
              self_parameters =
                \<lparr>arg_loc = PyFloat l, arg_scale = PyFloat s, arg_skewness = Some (PyFloat k),
                 arg_tailweight = Some (PyFloat w), arg_distribution = b, arg_validate_args = v,
                 arg_allow_nan_stats = n, arg_name = nm\<rparr>\<rparr>)"
proof -
  have c: "common_dtype [Some (PyFloat l), Some (PyFloat s), Some (PyFloat k), Some (PyFloat w)]
             float32 = Inr float32"
    by (simp add: common_dtype_def)
  show ?thesis
    by (cases b)
       (simp_all add: SinhArcsinh_init_def Let_def c convert_PyFloat
          sinh_arcsinh_bijector_eval[where dt = float32] bijector_call_def reduce_max_def
          del: convert_nonref_to_tensor.simps)
qed

lemma init_args_scalar:
  "SinhArcsinh_init args_scalar = Inr
     \<lparr>self_loc = scalar float32 3, self_scale = scalar float32 2,
      self_tailweight = scalar float32 1, self_skewness = scalar float32 0,
      self_distribution = Normal (tf_zeros [] float32) (tf_ones [] float32) True False,
      self_bijector =
        Chain [Chain [Shift (scalar float32 3) False, Scale (scalar float32 2) False] False,
               SinhArcsinhB (scalar float32 0) (scalar float32 1) False] False,
      self_validate_args = False, self_name = ''SinhArcsinh/'', self_parameters = args_scalar\<rparr>"
  by (simp add: SinhArcsinh_init_def args_scalar_def common_dtype_def convert_PyFloat
        sinh_arcsinh_bijector_eval[where dt = float32] bijector_call_def reduce_max_def
        tf_name_scope_def del: convert_nonref_to_tensor.simps)

lemma init_args_vec:
  "SinhArcsinh_init args_vec = Inr
     \<lparr>self_loc = vec3 float32, self_scale = scalar float32 2,
      self_tailweight = scalar float32 1, self_skewness = scalar float32 0,
      self_distribution = Normal (tf_zeros [1] float32) (tf_ones [] float32) True False,
      self_bijector =
        Chain [Chain [Shift (vec3 float32) False, Scale (scalar float32 2) False] False,
               SinhArcsinhB (scalar float32 0) (scalar float32 1) False] False,
      self_validate_args = False, self_name = ''SinhArcsinh/'', self_parameters = args_vec\<rparr>"
proof -
  have v: "convert_nonref_to_tensor (TensorLike (vec3 float32)) float32 = Inr (vec3 float32)"
    by (simp add: vec3_def)
  have s: "t_shape (vec3 float32) = [3]" by (simp add: vec3_def)
  show ?thesis
    by (simp add: SinhArcsinh_init_def args_vec_def common_dtype_def convert_PyFloat v s
        sinh_arcsinh_bijector_eval[where dt = float32] bijector_call_def reduce_max_def
        tf_name_scope_def vec3_def[THEN arg_cong, of t_dtype]
        del: convert_nonref_to_tensor.simps)
qed

lemma init_args_general:
  "SinhArcsinh_init args_general = Inr
     \<lparr>self_loc = scalar float32 7, self_scale = scalar float32 5,
      self_tailweight = scalar float32 2, self_skewness = scalar float32 (1 / 2),
      self_distribution = Supplied (),
      self_bijector =
        Chain [Chain [Shift (scalar float32 7) False, Scale (scalar float32 5) False] False,
               SinhArcsinhB (scalar float32 (1 / 2)) (scalar float32 2) True] False,
      self_validate_args = True, self_name = ''SinhArcsinh/'', self_parameters = args_general\<rparr>"
  unfolding args_general_def by (simp add: init_floats tf_name_scope_def)


lemma init_conversions:
  assumes "SinhArcsinh_init a = Inr d"
  shows "common_dtype [Some (arg_loc a), Some (arg_scale a), arg_skewness a, arg_tailweight a]
           float32 = Inr (t_dtype (self_loc d))"
    and "convert_nonref_to_tensor (arg_loc a) (t_dtype (self_loc d)) = Inr (self_loc d)"
    and "convert_nonref_to_tensor (arg_scale a) (t_dtype (self_loc d)) = Inr (self_scale d)"
    and "convert_nonref_to_tensor (case arg_tailweight a of None \<Rightarrow> PyFloat 1 | Some t \<Rightarrow> t)
           (t_dtype (self_loc d)) = Inr (self_tailweight d)"
    and "convert_nonref_to_tensor (case arg_skewness a of None \<Rightarrow> PyFloat 0 | Some s \<Rightarrow> s)
           (t_dtype (self_loc d)) = Inr (self_skewness d)"
    and "is_floating (t_dtype (self_loc d))"
proof -
  from assms obtain dtype where
    c: "common_dtype [Some (arg_loc a), Some (arg_scale a), arg_skewness a, arg_tailweight a]
          float32 = Inr dtype" and
    l: "convert_nonref_to_tensor (arg_loc a) dtype = Inr (self_loc d)" and
    s: "convert_nonref_to_tensor (arg_scale a) dtype = Inr (self_scale d)" and
    t: "convert_nonref_to_tensor (case arg_tailweight a of None \<Rightarrow> PyFloat 1 | Some t \<Rightarrow> t) dtype
          = Inr (self_tailweight d)" and
    k: "convert_nonref_to_tensor (case arg_skewness a of None \<Rightarrow> PyFloat 0 | Some s \<Rightarrow> s) dtype
          = Inr (self_skewness d)" and
    f: "is_floating dtype"
    by (rule init_fields)
  have dt: "t_dtype (self_loc d) = dtype" using l by (rule convert_dtype)
  show "common_dtype [Some (arg_loc a), Some (arg_scale a), arg_skewness a, arg_tailweight a]
           float32 = Inr (t_dtype (self_loc d))" using c dt by simp
  show "convert_nonref_to_tensor (arg_loc a) (t_dtype (self_loc d)) = Inr (self_loc d)"
    using l dt by simp
  show "convert_nonref_to_tensor (arg_scale a) (t_dtype (self_loc d)) = Inr (self_scale d)"
    using s dt by simp
  show "convert_nonref_to_tensor (case arg_tailweight a of None \<Rightarrow> PyFloat 1 | Some t \<Rightarrow> t)
           (t_dtype (self_loc d)) = Inr (self_tailweight d)" using t dt by simp
  show "convert_nonref_to_tensor (case arg_skewness a of None \<Rightarrow> PyFloat 0 | Some s \<Rightarrow> s)
           (t_dtype (self_loc d)) = Inr (self_skewness d)" using k dt by simp
  show "is_floating (t_dtype (self_loc d))" using f dt by simp
qed

text \<open>
  C9: the default event-space bijector of an instance is the identity bijector (built
  with the instance's \<^verbatim>\<open>validate_args\<close>), which maps every real to itself.
\<close>

theorem default_event_space_bijector_identity:
  "fst (default_event_space_bijector self) = Identity (self_validate_args self) \<and>
   forward rnd (fst (default_event_space_bijector self)) i x = x"
  by (simp add: default_event_space_bijector_def)

lemma common_dtype_cong:
  "arg_dtype x = arg_dtype x' \<Longrightarrow> arg_dtype y = arg_dtype y' \<Longrightarrow>
     common_dtype [l, s, x, y] h = common_dtype [l, s, x', y'] h"
  by (simp add: common_dtype_def split: option.splits)

lemma init_cong:
  assumes "common_dtype [Some (arg_loc a), Some (arg_scale a), arg_skewness a, arg_tailweight a]
             float32
         = common_dtype [Some (arg_loc b), Some (arg_scale b), arg_skewness b, arg_tailweight b]
             float32"
    and "arg_loc a = arg_loc b" and "arg_scale a = arg_scale b"
    and "(case arg_tailweight a of None \<Rightarrow> PyFloat 1 | Some t \<Rightarrow> t)
       = (case arg_tailweight b of None \<Rightarrow> PyFloat 1 | Some t \<Rightarrow> t)"
    and "(case arg_skewness a of None \<Rightarrow> PyFloat 0 | Some s \<Rightarrow> s)
       = (case arg_skewness b of None \<Rightarrow> PyFloat 0 | Some s \<Rightarrow> s)"
    and "arg_distribution a = arg_distribution b"
    and "arg_validate_args a = arg_validate_args b"
    and "arg_allow_nan_stats a = arg_allow_nan_stats b"
    and "arg_name a = arg_name b"
  shows "map_sum id (\<lambda>d. d\<lparr>self_parameters := p\<rparr>) (SinhArcsinh_init a)
       = map_sum id (\<lambda>d. d\<lparr>self_parameters := p\<rparr>) (SinhArcsinh_init b)"
proof -
  have c: "common_dtype [Some (arg_loc b), Some (arg_scale b), arg_skewness a, arg_tailweight a]
             float32
         = common_dtype [Some (arg_loc b), Some (arg_scale b), arg_skewness b, arg_tailweight b]
             float32"
    using assms(1-3) by simp
  show ?thesis
    unfolding SinhArcsinh_init_def Let_def assms(2-) c
    by (simp split: sum.splits)
qed

text \<open>
  C10: an omitted skewness is replaced by \<open>0.0\<close> and an omitted tailweight by \<open>1.0\<close>
  before the conversion to the common dtype: leaving either out gives the same result
  (an error, or the same instance up to the recorded \<^verbatim>\<open>parameters\<close>) as passing
  the float, and an instance built with only loc and scale stores the scalars 0 and 1.
\<close>

theorem init_default_skewness_tailweight:
  "map_sum id (\<lambda>d. d\<lparr>self_parameters := p\<rparr>) (SinhArcsinh_init (a\<lparr>arg_skewness := None\<rparr>)) =
   map_sum id (\<lambda>d. d\<lparr>self_parameters := p\<rparr>)
     (SinhArcsinh_init (a\<lparr>arg_skewness := Some (PyFloat 0)\<rparr>))
 \<and> map_sum id (\<lambda>d. d\<lparr>self_parameters := p\<rparr>) (SinhArcsinh_init (a\<lparr>arg_tailweight := None\<rparr>)) =
   map_sum id (\<lambda>d. d\<lparr>self_parameters := p\<rparr>)
     (SinhArcsinh_init (a\<lparr>arg_tailweight := Some (PyFloat 1)\<rparr>))
 \<and> (SinhArcsinh_init (a\<lparr>arg_skewness := None, arg_tailweight := None\<rparr>) = Inr d \<longrightarrow>
      self_skewness d = scalar (t_dtype (self_loc d)) 0 \<and>
      self_tailweight d = scalar (t_dtype (self_loc d)) 1 \<and>
      bread (self_skewness d) i = 0 \<and> bread (self_tailweight d) i = 1)"
proof (intro conjI impI)
  show "map_sum id (\<lambda>d. d\<lparr>self_parameters := p\<rparr>) (SinhArcsinh_init (a\<lparr>arg_skewness := None\<rparr>)) =
   map_sum id (\<lambda>d. d\<lparr>self_parameters := p\<rparr>)
     (SinhArcsinh_init (a\<lparr>arg_skewness := Some (PyFloat 0)\<rparr>))"
    by (rule init_cong) (simp_all add: common_dtype_cong)
  show "map_sum id (\<lambda>d. d\<lparr>self_parameters := p\<rparr>) (SinhArcsinh_init (a\<lparr>arg_tailweight := None\<rparr>)) =
   map_sum id (\<lambda>d. d\<lparr>self_parameters := p\<rparr>)
     (SinhArcsinh_init (a\<lparr>arg_tailweight := Some (PyFloat 1)\<rparr>))"
    by (rule init_cong) (simp_all add: common_dtype_cong)
next
  assume h: "SinhArcsinh_init (a\<lparr>arg_skewness := None, arg_tailweight := None\<rparr>) = Inr d"
  note c = init_conversions[OF h]
  have t: "convert_nonref_to_tensor (PyFloat 1) (t_dtype (self_loc d)) = Inr (self_tailweight d)"
    using c(4) by simp
  have s: "convert_nonref_to_tensor (PyFloat 0) (t_dtype (self_loc d)) = Inr (self_skewness d)"
    using c(5) by simp
  show sk: "self_skewness d = scalar (t_dtype (self_loc d)) 0"
    using s c(6) by (simp add: convert_PyFloat del: convert_nonref_to_tensor.simps)
  show tw: "self_tailweight d = scalar (t_dtype (self_loc d)) 1"
    using t c(6) by (simp add: convert_PyFloat del: convert_nonref_to_tensor.simps)
  show "bread (self_skewness d) i = 0" by (simp add: sk)
  show "bread (self_tailweight d) i = 1" by (simp add: tw)
qed

theorem init_default_skewness_tailweight_witness:
  "SinhArcsinh_init (args_scalar\<lparr>arg_skewness := None, arg_tailweight := None\<rparr>) =
     Inr (projr (SinhArcsinh_init args_scalar)) \<and>
   self_skewness (projr (SinhArcsinh_init args_scalar)) = scalar float32 0 \<and>
   self_tailweight (projr (SinhArcsinh_init args_scalar)) = scalar float32 1 \<and>
   bread (self_skewness (projr (SinhArcsinh_init args_scalar))) [] = 0 \<and>
   bread (self_tailweight (projr (SinhArcsinh_init args_scalar))) [] = 1"
proof -
  have u: "args_scalar\<lparr>arg_skewness := None, arg_tailweight := None\<rparr> = args_scalar"
    by (simp add: args_scalar_def)
  have e: "SinhArcsinh_init (args_scalar\<lparr>arg_skewness := None, arg_tailweight := None\<rparr>) =
             Inr (projr (SinhArcsinh_init args_scalar))"
    by (simp add: u init_args_scalar)
  note r = init_default_skewness_tailweight
             [of args_scalar args_scalar "projr (SinhArcsinh_init args_scalar)" "[]",
              THEN conjunct2, THEN conjunct2, THEN mp, OF e]
  show ?thesis
    using r by (simp add: init_args_scalar u)
qed

text \<open>
  C7: the accessors \<^verbatim>\<open>loc\<close>, \<^verbatim>\<open>scale\<close>, \<^verbatim>\<open>skewness\<close> and \<^verbatim>\<open>tailweight\<close>
  return what the constructor stored, which is the conversion of the corresponding
  argument (a reference is stored as it is), and no method of the class changes the
  instance.
\<close>

theorem accessors_return_constructed:
  "SinhArcsinh_init a = Inr d \<Longrightarrow>
     Inr (fst (loc d)) = convert_nonref_to_tensor (arg_loc a) (t_dtype (self_loc d)) \<and>
     Inr (fst (scale d)) = convert_nonref_to_tensor (arg_scale a) (t_dtype (self_loc d)) \<and>
     Inr (fst (skewness d)) =
       convert_nonref_to_tensor (case arg_skewness a of None \<Rightarrow> PyFloat 0 | Some s \<Rightarrow> s)
         (t_dtype (self_loc d)) \<and>
     Inr (fst (tailweight d)) =
       convert_nonref_to_tensor (case arg_tailweight a of None \<Rightarrow> PyFloat 1 | Some t \<Rightarrow> t)
         (t_dtype (self_loc d)) \<and>
     snd (loc d) = d \<and> snd (scale d) = d \<and> snd (skewness d) = d \<and> snd (tailweight d) = d \<and>
     snd (batch_shape d) = d \<and> snd (batch_shape_tensor d) = d \<and>
     snd (default_event_space_bijector d) = d"
proof -
  assume h: "SinhArcsinh_init a = Inr d"
  note c = init_conversions[OF h]
  show ?thesis
    using c(2-5)
    by (simp add: loc_def scale_def skewness_def tailweight_def batch_shape_def
          batch_shape_tensor_def default_event_space_bijector_def)
qed

theorem accessors_return_constructed_witness:
  "\<not> isl (SinhArcsinh_init args_vec) \<and>
   fst (loc (projr (SinhArcsinh_init args_vec))) = vec3 float32 \<and>
   fst (scale (projr (SinhArcsinh_init args_vec))) = scalar float32 2 \<and>
   snd (batch_shape (projr (SinhArcsinh_init args_vec))) = projr (SinhArcsinh_init args_vec)"
proof -
  have e: "SinhArcsinh_init args_vec = Inr (projr (SinhArcsinh_init args_vec))"
    by (simp add: init_args_vec)
  show ?thesis
    using accessors_return_constructed [OF e]
    by (simp add: init_args_vec loc_def scale_def)
qed


section \<open>Batch shape\<close>

lemma nth1_Nil [simp]: "nth1 [] k = 1" by (simp add: nth1_def)
lemma nth1_Cons_0 [simp]: "nth1 (x # xs) 0 = x" by (simp add: nth1_def)
lemma nth1_Cons_Suc [simp]: "nth1 (x # xs) (Suc k) = nth1 xs k" by (simp add: nth1_def)

lemma broadcast_shape_helper_length:
  "broadcast_shape_helper xs ys = Some r \<Longrightarrow> length r = max (length xs) (length ys)"
  by (induction xs ys arbitrary: r rule: broadcast_shape_helper.induct)
     (auto split: if_splits)

lemma broadcast_shape_helper_nth:
  "broadcast_shape_helper xs ys = Some r \<Longrightarrow>
     nth1 r k = (if nth1 xs k = 1 then nth1 ys k else nth1 xs k) \<and>
     (nth1 xs k = 1 \<or> nth1 ys k = 1 \<or> nth1 xs k = nth1 ys k)"
proof (induction xs ys arbitrary: r k rule: broadcast_shape_helper.induct)
  case (1 ys)
  then show ?case by simp
next
  case (2 x xs)
  then show ?case by simp
next
  case (3 x xs y ys)
  then obtain r' where r': "broadcast_shape_helper xs ys = Some r'"
    by (auto split: if_splits)
  show ?case
  proof (cases k)
    case 0
    with 3(4) r' show ?thesis by (auto split: if_splits)
  next
    case (Suc j)
    have "nth1 r' j = (if nth1 xs j = 1 then nth1 ys j else nth1 xs j) \<and>
     (nth1 xs j = 1 \<or> nth1 ys j = 1 \<or> nth1 xs j = nth1 ys j)"
      using 3(1-3)[of r' j] 3(4) r' by (auto split: if_splits)
    moreover have "nth1 r (Suc j) = nth1 r' j" using 3(4) r' by (auto split: if_splits)
    ultimately show ?thesis using Suc by simp
  qed
qed

lemma broadcast_shape_helper_None:
  "broadcast_shape_helper xs ys = None \<Longrightarrow>
     \<exists>k. nth1 xs k \<noteq> 1 \<and> nth1 ys k \<noteq> 1 \<and> nth1 xs k \<noteq> nth1 ys k"
proof (induction xs ys rule: broadcast_shape_helper.induct)
  case (1 ys)
  then show ?case by simp
next
  case (2 x xs)
  then show ?case by simp
next
  case (3 x xs y ys)
  show ?case
  proof (cases "x \<noteq> 1 \<and> y \<noteq> 1 \<and> x \<noteq> y")
    case True
    then have "nth1 (x # xs) 0 \<noteq> 1 \<and> nth1 (y # ys) 0 \<noteq> 1 \<and> nth1 (x # xs) 0 \<noteq> nth1 (y # ys) 0"
      by simp
    then show ?thesis by blast
  next
    case False
    then have "broadcast_shape_helper xs ys = None" using 3(4) by (auto split: if_splits)
    then obtain k where "nth1 xs k \<noteq> 1 \<and> nth1 ys k \<noteq> 1 \<and> nth1 xs k \<noteq> nth1 ys k"
      using 3(1-3) False by (auto split: if_splits)
    then have "nth1 (x # xs) (Suc k) \<noteq> 1 \<and> nth1 (y # ys) (Suc k) \<noteq> 1 \<and> nth1 (x # xs) (Suc k) \<noteq> nth1 (y # ys) (Suc k)"
      by simp
    then show ?thesis by blast
  qed
qed

lemma size_at_nth1: "size_at s k = nth1 (rev s) k"
  by (simp add: size_at_def nth1_def)

lemma broadcast_static_shape_InrD:
  assumes "broadcast_static_shape x y = Inr r"
  shows "length r = max (length x) (length y)"
    and "size_at r k = (if size_at x k = 1 then size_at y k else size_at x k)"
    and "size_at x k = 1 \<or> size_at y k = 1 \<or> size_at x k = size_at y k"
proof -
  from assms obtain r' where h: "broadcast_shape_helper (rev x) (rev y) = Some r'" and r: "r = rev r'"
    by (auto simp: broadcast_static_shape_def split: option.splits)
  show "length r = max (length x) (length y)" using broadcast_shape_helper_length[OF h] r by simp
  show "size_at r k = (if size_at x k = 1 then size_at y k else size_at x k)"
    using broadcast_shape_helper_nth[OF h, of k] r by (simp add: size_at_nth1)
  show "size_at x k = 1 \<or> size_at y k = 1 \<or> size_at x k = size_at y k"
    using broadcast_shape_helper_nth[OF h, of k] by (simp add: size_at_nth1)
qed

lemma broadcast_static_shape_InlD:
  assumes "broadcast_static_shape x y = Inl e"
  shows "e = ValueError"
    and "\<exists>k. size_at x k \<noteq> 1 \<and> size_at y k \<noteq> 1 \<and> size_at x k \<noteq> size_at y k"
proof -
  from assms have h: "broadcast_shape_helper (rev x) (rev y) = None" and e: "e = ValueError"
    by (auto simp: broadcast_static_shape_def split: option.splits)
  show "e = ValueError" by (rule e)
  show "\<exists>k. size_at x k \<noteq> 1 \<and> size_at y k \<noteq> 1 \<and> size_at x k \<noteq> size_at y k"
    using broadcast_shape_helper_None[OF h] by (simp add: size_at_nth1)
qed

lemma axis_ok:
  assumes "a = 1 \<or> b = 1 \<or> a = b"
    and "r1 = (if a = 1 then b else a)"
    and "r1 = 1 \<or> c = 1 \<or> r1 = c"
    and "r2 = (if r1 = 1 then c else r1)"
    and "r2 = 1 \<or> d = 1 \<or> r2 = d"
    and "r3 = (if r2 = 1 then d else r2)"
  shows "broadcast_axis [a, b, c, d] = Some (r3::nat)"
  using assms by (auto simp: broadcast_axis_def split: if_splits)

lemma axis_fail1:
  assumes "a \<noteq> 1" "b \<noteq> 1" "a \<noteq> b"
  shows "broadcast_axis [a, b, c, d] = None"
  using assms by (auto simp: broadcast_axis_def)

lemma axis_fail2:
  assumes "r1 = (if a = 1 then b else a)" "r1 \<noteq> 1" "c \<noteq> 1" "r1 \<noteq> c"
  shows "broadcast_axis [a, b, c, d] = None"
  using assms by (auto simp: broadcast_axis_def split: if_splits)

lemma axis_fail3:
  assumes "r1 = (if a = 1 then b else a)" "r2 = (if r1 = 1 then c else r1)" "r2 \<noteq> 1" "d \<noteq> 1" "r2 \<noteq> d"
  shows "broadcast_axis [a, b, c, d] = None"
  using assms by (auto simp: broadcast_axis_def split: if_splits)

lemma size_at_rev_upt:
  "map (size_at r) (rev [0..<length r]) = r"
proof (rule nth_equalityI)
  show "length (map (size_at r) (rev [0..<length r])) = length r" by simp
next
  fix j assume "j < length (map (size_at r) (rev [0..<length r]))"
  then have j: "j < length r" by simp
  then have "rev [0..<length r] ! j = length r - Suc j"
    by (simp add: rev_nth)
  moreover have "size_at r (length r - Suc j) = r ! j"
  proof -
    have lt: "length r - Suc j < length r" using j by arith
    have ix: "length r - Suc (length r - Suc j) = j" using j by arith
    show ?thesis by (simp add: size_at_def rev_nth lt ix)
  qed
  ultimately show "map (size_at r) (rev [0..<length r]) ! j = r ! j"
    using j by simp
qed

lemma broadcast_of_shapes_InrI:
  assumes "length r = reduce_max (map length shapes)"
    and "\<And>k. k < length r \<Longrightarrow> broadcast_axis (map (\<lambda>s. size_at s k) shapes) = Some (size_at r k)"
  shows "broadcast_of_shapes shapes = Inr r"
proof -
  have m: "map (\<lambda>k. broadcast_axis (map (\<lambda>s. size_at s k) shapes)) (rev [0..<length r])
         = map (\<lambda>k. Some (size_at r k)) (rev [0..<length r])"
    using assms(2) by simp
  have "map the (map (\<lambda>k. Some (size_at r k)) (rev [0..<length r])) = r"
    using size_at_rev_upt[of r] by (simp add: comp_def)
  moreover have "list_all (\<lambda>x. x \<noteq> None) (map (\<lambda>k. Some (size_at r k)) (rev [0..<length r]))"
    by (simp add: list_all_iff)
  ultimately show ?thesis
    unfolding broadcast_of_shapes_def Let_def assms(1)[symmetric] m by simp
qed

lemma broadcast_of_shapes_InlI:
  assumes "k < reduce_max (map length shapes)"
    and "broadcast_axis (map (\<lambda>s. size_at s k) shapes) = None"
  shows "broadcast_of_shapes shapes = Inl ValueError"
proof -
  have "k \<in> set (rev [0..<reduce_max (map length shapes)])" using assms(1) by simp
  then have "\<not> list_all (\<lambda>x. x \<noteq> None)
       (map (\<lambda>k. broadcast_axis (map (\<lambda>s. size_at s k) shapes)) (rev [0..<reduce_max (map length shapes)]))"
    using assms(2) unfolding list_all_iff by force
  then show ?thesis
    unfolding broadcast_of_shapes_def Let_def by simp
qed

lemma size_at_less: "size_at s k \<noteq> 1 \<Longrightarrow> k < length s"
  by (simp add: size_at_def split: if_splits)

lemma broadcast_loop_four:
  "broadcast_loop (Inr a) [tb, tc, td] = broadcast_of_shapes [a, t_shape tb, t_shape tc, t_shape td]"
proof -
  let ?b = "t_shape tb" and ?c = "t_shape tc" and ?d = "t_shape td"
  let ?n = "reduce_max (map length [a, ?b, ?c, ?d])"
  have n: "?n = max (length a) (max (length ?b) (max (length ?c) (length ?d)))"
    by (simp add: reduce_max_def)
  show ?thesis
  proof (cases "broadcast_static_shape a ?b")
    case (Inl e)
    from broadcast_static_shape_InlD[OF Inl] obtain k where e: "e = ValueError"
      and k: "size_at a k \<noteq> 1" "size_at ?b k \<noteq> 1" "size_at a k \<noteq> size_at ?b k" by blast
    have "k < ?n" using size_at_less[OF k(1)] n by arith
    moreover have "broadcast_axis (map (\<lambda>s. size_at s k) [a, ?b, ?c, ?d]) = None"
      using axis_fail1[OF k] by simp
    ultimately have "broadcast_of_shapes [a, ?b, ?c, ?d] = Inl ValueError" by (rule broadcast_of_shapes_InlI)
    then show ?thesis using Inl e by simp
  next
    case (Inr r1)
    note r1 = broadcast_static_shape_InrD[OF Inr]
    show ?thesis
    proof (cases "broadcast_static_shape r1 ?c")
      case (Inl e)
      from broadcast_static_shape_InlD[OF Inl] obtain k where e: "e = ValueError"
        and k: "size_at r1 k \<noteq> 1" "size_at ?c k \<noteq> 1" "size_at r1 k \<noteq> size_at ?c k" by blast
      have "k < length r1" using size_at_less[OF k(1)] .
      then have "k < ?n" using r1(1) n by arith
      moreover have "broadcast_axis (map (\<lambda>s. size_at s k) [a, ?b, ?c, ?d]) = None"
        using axis_fail2[OF r1(2)[of k] k] by simp
      ultimately have "broadcast_of_shapes [a, ?b, ?c, ?d] = Inl ValueError" by (rule broadcast_of_shapes_InlI)
      then show ?thesis using Inl e Inr by simp
    next
      case r2I: (Inr r2)
      note r2 = broadcast_static_shape_InrD[OF r2I]
      show ?thesis
      proof (cases "broadcast_static_shape r2 ?d")
        case (Inl e)
        from broadcast_static_shape_InlD[OF Inl] obtain k where e: "e = ValueError"
          and k: "size_at r2 k \<noteq> 1" "size_at ?d k \<noteq> 1" "size_at r2 k \<noteq> size_at ?d k" by blast
        have "k < length r2" using size_at_less[OF k(1)] .
        then have "k < ?n" using r1(1) r2(1) n by arith
        moreover have "broadcast_axis (map (\<lambda>s. size_at s k) [a, ?b, ?c, ?d]) = None"
          using axis_fail3[OF r1(2)[of k] r2(2)[of k] k] by simp
        ultimately have "broadcast_of_shapes [a, ?b, ?c, ?d] = Inl ValueError" by (rule broadcast_of_shapes_InlI)
        then show ?thesis using Inl e Inr r2I by simp
      next
        case r3I: (Inr r3)
        note r3 = broadcast_static_shape_InrD[OF r3I]
        have len: "length r3 = ?n" using r1(1) r2(1) r3(1) n by arith
        have "broadcast_of_shapes [a, ?b, ?c, ?d] = Inr r3"
        proof (rule broadcast_of_shapes_InrI[OF len])
          fix k
          show "broadcast_axis (map (\<lambda>s. size_at s k) [a, ?b, ?c, ?d]) = Some (size_at r3 k)"
            using axis_ok[OF r1(3)[of k] r1(2)[of k] r2(3)[of k] r2(2)[of k] r3(3)[of k] r3(2)[of k]]
            by simp
        qed
        then show ?thesis using Inr r2I r3I by simp
      qed
    qed
  qed
qed

text \<open>
  C2: the static batch shape (\<^verbatim>\<open>_batch_shape\<close>) and the dynamic one
  (\<^verbatim>\<open>_batch_shape_tensor\<close>) of an instance are both the broadcast of the shapes of
  skewness, tailweight, loc and scale (an error when these do not broadcast).
\<close>

theorem batch_shape_is_broadcast:
  "fst (batch_shape self) =
     broadcast_of_shapes [t_shape (self_skewness self), t_shape (self_tailweight self),
                          t_shape (self_loc self), t_shape (self_scale self)] \<and>
   fst (batch_shape_tensor self) =
     broadcast_of_shapes [t_shape (self_skewness self), t_shape (self_tailweight self),
                          t_shape (self_loc self), t_shape (self_scale self)]"
  by (simp add: batch_shape_def batch_shape_tensor_def skewness_def tailweight_def loc_def
        scale_def broadcast_loop_four del: broadcast_loop.simps)

theorem batch_shape_is_broadcast_witness:
  "fst (batch_shape (projr (SinhArcsinh_init args_vec))) = Inr [3] \<and>
   fst (batch_shape_tensor (projr (SinhArcsinh_init args_vec))) = Inr [3] \<and>
   broadcast_of_shapes [[], [], [3], []] = Inr [3]"
  using batch_shape_is_broadcast [of "projr (SinhArcsinh_init args_vec)"]
  by (simp add: init_args_vec scalar_def vec3_def broadcast_of_shapes_def reduce_max_def
        size_at_def broadcast_axis_def)





text \<open>
  C5: the transform handed to the transformed-distribution superclass is the chain of
  the affine map \<^verbatim>\<open>Shift(loc)(Scale(scale))\<close> and of the sinh-arcsinh bijector of
  skewness and tailweight, each built from the converted argument of the constructor,
  in this order: the sinh-arcsinh bijector is applied first, the scale after it and the
  shift last.
\<close>

theorem init_bijector_order:
  "SinhArcsinh_init a = Inr d \<Longrightarrow>
     convert_nonref_to_tensor (arg_loc a) (t_dtype (self_loc d)) = Inr (self_loc d) \<and>
     convert_nonref_to_tensor (arg_scale a) (t_dtype (self_loc d)) = Inr (self_scale d) \<and>
     convert_nonref_to_tensor (case arg_skewness a of None \<Rightarrow> PyFloat 0 | Some s \<Rightarrow> s)
       (t_dtype (self_loc d)) = Inr (self_skewness d) \<and>
     convert_nonref_to_tensor (case arg_tailweight a of None \<Rightarrow> PyFloat 1 | Some t \<Rightarrow> t)
       (t_dtype (self_loc d)) = Inr (self_tailweight d) \<and>
     common_dtype [Some (arg_loc a), Some (arg_scale a), arg_skewness a, arg_tailweight a]
       float32 = Inr (t_dtype (self_loc d)) \<and>
     self_bijector d =
       Chain [bijector_call (Shift (self_loc d) False) (Scale (self_scale d) False),
              SinhArcsinhB (self_skewness d) (self_tailweight d) (arg_validate_args a)] False \<and>
     application_order (self_bijector d) =
       [SinhArcsinhB (self_skewness d) (self_tailweight d) (arg_validate_args a),
        Scale (self_scale d) False, Shift (self_loc d) False] \<and>
     forward rnd (self_bijector d) i z =
       forward rnd (Shift (self_loc d) False) i
         (forward rnd (Scale (self_scale d) False) i
            (forward rnd (SinhArcsinhB (self_skewness d) (self_tailweight d)
                            (arg_validate_args a)) i z))"
proof -
  assume h: "SinhArcsinh_init a = Inr d"
  note c = init_conversions[OF h]
  have b: "self_bijector d =
       Chain [bijector_call (Shift (self_loc d) False) (Scale (self_scale d) False),
              SinhArcsinhB (self_skewness d) (self_tailweight d) (arg_validate_args a)] False"
    using h by (rule init_fields)
  show ?thesis
    using c(1-5) b by (simp add: bijector_call_def)
qed

theorem init_bijector_order_witness:
  "\<not> isl (SinhArcsinh_init args_general) \<and>
   convert_nonref_to_tensor (arg_loc args_general) float32 = Inr (scalar float32 7) \<and>
   convert_nonref_to_tensor (arg_scale args_general) float32 = Inr (scalar float32 5) \<and>
   self_bijector (projr (SinhArcsinh_init args_general)) =
     Chain [bijector_call (Shift (scalar float32 7) False) (Scale (scalar float32 5) False),
            SinhArcsinhB (scalar float32 (1 / 2)) (scalar float32 2) True] False \<and>
   application_order (self_bijector (projr (SinhArcsinh_init args_general))) =
     [SinhArcsinhB (scalar float32 (1 / 2)) (scalar float32 2) True,
      Scale (scalar float32 5) False, Shift (scalar float32 7) False]"
proof -
  have e: "SinhArcsinh_init args_general = Inr (projr (SinhArcsinh_init args_general))"
    by (simp add: init_args_general)
  have v: "arg_validate_args args_general = True" "arg_loc args_general = PyFloat 7"
    "arg_scale args_general = PyFloat 5"
    by (simp_all add: args_general_def)
  show ?thesis
    using init_bijector_order [OF e, of "\<lambda>x. x" "[]" 0]
    by (simp add: init_args_general v bijector_call_def convert_PyFloat
          del: convert_nonref_to_tensor.simps)
qed

section \<open>Dtypes, parameter properties and validation\<close>

lemma common_dtype_loop_carried:
  "common_dtype_loop acc xs = Inr r \<Longrightarrow>
     (acc = None \<or> r = acc) \<and>
     (\<forall>x \<in> set xs. arg_dtype x = None \<or> arg_dtype x = r)"
  by (induction xs arbitrary: acc) (auto split: option.splits if_splits)

lemma common_dtype_carried:
  assumes "common_dtype xs h = Inr dt" and "x \<in> set xs"
  shows "arg_dtype x = None \<or> arg_dtype x = Some dt"
proof -
  from assms(1) obtain r where r: "common_dtype_loop None xs = Inr r"
    by (auto simp: common_dtype_def split: sum.splits)
  from common_dtype_loop_carried[OF r] assms(2) have c: "arg_dtype x = None \<or> arg_dtype x = r" by blast
  from assms(1) r have "r = None \<or> r = Some dt"
    by (auto simp: common_dtype_def split: option.splits)
  with c show ?thesis by auto
qed

lemma common_dtype_none:
  assumes "\<forall>x \<in> set xs. arg_dtype x = None"
  shows "common_dtype xs h = Inr h"
proof -
  have "common_dtype_loop None xs = Inr None" using assms by (induction xs) auto
  then show ?thesis by (simp add: common_dtype_def)
qed








text \<open>
  C8: on construction the four stored parameters are the conversions of the arguments to
  one dtype, the common dtype of the arguments: every argument that carries a dtype
  carries this one, it is \<^verbatim>\<open>float32\<close> when no argument carries a dtype, and it is a
  floating-point dtype.
\<close>

theorem init_common_dtype:
  "SinhArcsinh_init a = Inr d \<Longrightarrow>
     common_dtype [Some (arg_loc a), Some (arg_scale a), arg_skewness a, arg_tailweight a] float32
       = Inr (t_dtype (self_loc d)) \<and>
     is_floating (t_dtype (self_loc d)) \<and>
     convert_nonref_to_tensor (arg_loc a) (t_dtype (self_loc d)) = Inr (self_loc d) \<and>
     convert_nonref_to_tensor (arg_scale a) (t_dtype (self_loc d)) = Inr (self_scale d) \<and>
     convert_nonref_to_tensor (case arg_skewness a of None \<Rightarrow> PyFloat 0 | Some s \<Rightarrow> s)
       (t_dtype (self_loc d)) = Inr (self_skewness d) \<and>
     convert_nonref_to_tensor (case arg_tailweight a of None \<Rightarrow> PyFloat 1 | Some t \<Rightarrow> t)
       (t_dtype (self_loc d)) = Inr (self_tailweight d) \<and>
     t_dtype (self_scale d) = t_dtype (self_loc d) \<and>
     t_dtype (self_skewness d) = t_dtype (self_loc d) \<and>
     t_dtype (self_tailweight d) = t_dtype (self_loc d) \<and>
     list_all (\<lambda>x. arg_dtype x = None \<or> arg_dtype x = Some (t_dtype (self_loc d)))
       [Some (arg_loc a), Some (arg_scale a), arg_skewness a, arg_tailweight a] \<and>
     (list_all (\<lambda>x. arg_dtype x = None)
        [Some (arg_loc a), Some (arg_scale a), arg_skewness a, arg_tailweight a]
      \<longrightarrow> t_dtype (self_loc d) = float32)"
proof -
  assume h: "SinhArcsinh_init a = Inr d"
  let ?xs = "[Some (arg_loc a), Some (arg_scale a), arg_skewness a, arg_tailweight a]"
  note c = init_conversions[OF h]
  have 2: "t_dtype (self_scale d) = t_dtype (self_loc d)" using c(3) by (rule convert_dtype)
  have 3: "t_dtype (self_skewness d) = t_dtype (self_loc d)" using c(5) by (rule convert_dtype)
  have 4: "t_dtype (self_tailweight d) = t_dtype (self_loc d)" using c(4) by (rule convert_dtype)
  have 5: "list_all (\<lambda>x. arg_dtype x = None \<or> arg_dtype x = Some (t_dtype (self_loc d))) ?xs"
    unfolding list_all_iff using common_dtype_carried[OF c(1)] by blast
  have 6: "list_all (\<lambda>x. arg_dtype x = None) ?xs \<longrightarrow> t_dtype (self_loc d) = float32"
  proof
    assume "list_all (\<lambda>x. arg_dtype x = None) ?xs"
    then have "common_dtype ?xs float32 = Inr float32"
      by (intro common_dtype_none) (simp add: list_all_iff)
    with c(1) show "t_dtype (self_loc d) = float32" by simp
  qed
  show ?thesis by (intro conjI c(1) c(6) c(2) c(3) c(5) c(4) 2 3 4 5 6)
qed

theorem init_common_dtype_witness:
  "\<not> isl (SinhArcsinh_init args_vec) \<and>
   common_dtype [Some (arg_loc args_vec), Some (arg_scale args_vec), arg_skewness args_vec,
                 arg_tailweight args_vec] float32 = Inr float32 \<and>
   t_dtype (self_loc (projr (SinhArcsinh_init args_vec))) = float32 \<and>
   t_dtype (self_scale (projr (SinhArcsinh_init args_vec))) = float32 \<and>
   t_dtype (self_skewness (projr (SinhArcsinh_init args_vec))) = float32 \<and>
   t_dtype (self_tailweight (projr (SinhArcsinh_init args_vec))) = float32 \<and>
   is_floating (t_dtype (self_loc (projr (SinhArcsinh_init args_vec))))"
proof -
  have e: "SinhArcsinh_init args_vec = Inr (projr (SinhArcsinh_init args_vec))"
    by (simp add: init_args_vec)
  show ?thesis
    using init_common_dtype [OF e]
    by (simp add: init_args_vec vec3_def)
qed










section \<open>Exact arithmetic\<close>

text \<open>
  Under exact arithmetic, the rounding that changes nothing, the transform of an
  instance is \<open>z \<mapsto> loc + scale * z\<close> at every batch member where the stored skewness
  is 0 and the stored tailweight is 1, as the class docstring says. With a rounding that
  rounds, the two sides agree only up to the rounding errors of \<open>sinh\<close> and \<open>arcsinh\<close>.
\<close>

lemma forward_exact_arithmetic_affine:
  "SinhArcsinh_init a = Inr d \<Longrightarrow>
   bread (self_skewness d) i = 0 \<Longrightarrow> bread (self_tailweight d) i = 1 \<Longrightarrow>
     forward (\<lambda>x. x) (self_bijector d) i z = bread (self_loc d) i + bread (self_scale d) i * z"
  by (erule init_fields) (simp add: bijector_call_def)

end
